theory Spec2Isabelle
  imports Complex_Main
begin

section \<open>The persisted state of edtech\_tracker.py\<close>

text \<open>
  The three tables that \<open>init_db\<close> creates. Every row carries the columns of its
  table in the order of the schema. Identifiers and timestamps are natural numbers;
  the TEXT columns are strings. The UNIQUE and PRIMARY KEY constraints of the schema
  are not part of the types: they appear where the store checks them (in the INSERT
  into users) or as explicit hypotheses.
\<close>

record user_row =
  u_id :: nat
  username :: string
  password :: string
  role :: string
  created_at :: nat

record progress_row =
  p_id :: nat
  p_user_id :: nat
  subject :: string
  chapter_name :: string
  component :: string
  status :: string
  updated_at :: nat

record audit_row =
  a_id :: nat
  a_user_id :: nat
  action :: string
  details :: string
  timestamp :: nat

text \<open>
  The database file: the rows of each table in rowid order, and for each table the
  counter that SQLite keeps for an AUTOINCREMENT column (the largest identifier it has
  ever handed out).
\<close>

record tables =
  users :: "user_row list"
  progress :: "progress_row list"
  audit_logs :: "audit_row list"
  users_seq :: nat
  progress_seq :: nat
  audit_seq :: nat

text \<open>
  What the process sees: the database file, and the number of connections that have
  been opened by \<open>sqlite3.connect\<close> and not closed by \<open>conn.close()\<close>.
\<close>

record env =
  db :: tables
  open_conns :: nat

text \<open>
  The exceptions the modelled code can meet: the store's \<open>sqlite3.IntegrityError\<close>,
  Python's own errors for indexing an empty list or \<open>None\<close> and for
  \<open>list.index\<close> of an absent element, and passlib's \<open>PasswordSizeError\<close> (its
  \<open>ValueError\<close> for a stored value that is no hash is the \<open>ValueError\<close> here).
\<close>

datatype error = IntegrityError | IndexError | TypeError | ValueError | PasswordSizeError

text \<open>
  An SQL statement with its parameters bound is modelled by what \<open>c.execute\<close> does with
  it: it either raises, or yields the rows that \<open>c.fetchall()\<close> would return together
  with the tables as the open transaction sees them.
\<close>

type_synonym 'a stmt = "tables \<Rightarrow> error + ('a list \<times> tables)"

text \<open>AUTOINCREMENT: one more than the largest identifier in the table or ever used.\<close>

definition next_id :: "nat \<Rightarrow> nat list \<Rightarrow> nat" where
  "next_id seq ids = Suc (fold max ids seq)"

subsection \<open>Statements on users\<close>

text \<open>\<open>SELECT count(*) FROM users\<close>\<close>

definition sql_count_users :: "nat stmt" where
  "sql_count_users t = Inr ([length (users t)], t)"

text \<open>
  \<open>INSERT INTO users (username, password, role) VALUES (?, ?, ?)\<close>; the column
  \<open>username\<close> is declared UNIQUE, \<open>created_at\<close> defaults to CURRENT\_TIMESTAMP (the
  parameter \<open>now\<close>).
\<close>

definition sql_insert_user :: "nat \<Rightarrow> string \<Rightarrow> string \<Rightarrow> string \<Rightarrow> unit stmt" where
  "sql_insert_user now name hashed r t =
     (if name \<in> set (map username (users t)) then Inl IntegrityError
      else
        let i = next_id (users_seq t) (map u_id (users t))
        in Inr ([], t\<lparr>users := users t @
                        [\<lparr>u_id = i, username = name, password = hashed, role = r,
                          created_at = now\<rparr>],
                      users_seq := i\<rparr>))"

text \<open>\<open>SELECT id, username, password, role FROM users WHERE username = ?\<close>\<close>

definition sql_select_user :: "string \<Rightarrow> (nat \<times> string \<times> string \<times> string) stmt" where
  "sql_select_user name t =
     Inr (map (\<lambda>r. (u_id r, username r, password r, role r))
            (filter (\<lambda>r. username r = name) (users t)), t)"

subsection \<open>Statements on progress\<close>

text \<open>The WHERE clause \<open>user_id=? AND subject=? AND chapter_name=? AND component=?\<close>\<close>

definition key_matches :: "nat \<Rightarrow> string \<Rightarrow> string \<Rightarrow> string \<Rightarrow> progress_row \<Rightarrow> bool" where
  "key_matches uid subj chap cmp r \<longleftrightarrow>
     p_user_id r = uid \<and> subject r = subj \<and> chapter_name r = chap \<and> component r = cmp"

text \<open>\<open>SELECT status FROM progress WHERE\<close> (the key)\<close>

definition sql_select_status :: "nat \<Rightarrow> string \<Rightarrow> string \<Rightarrow> string \<Rightarrow> string stmt" where
  "sql_select_status uid subj chap cmp t =
     Inr (map status (filter (key_matches uid subj chap cmp) (progress t)), t)"

text \<open>\<open>SELECT id FROM progress WHERE\<close> (the key)\<close>

definition sql_select_progress_id :: "nat \<Rightarrow> string \<Rightarrow> string \<Rightarrow> string \<Rightarrow> nat stmt" where
  "sql_select_progress_id uid subj chap cmp t =
     Inr (map p_id (filter (key_matches uid subj chap cmp) (progress t)), t)"

text \<open>\<open>UPDATE progress SET status=?, updated_at=CURRENT_TIMESTAMP WHERE id=?\<close>\<close>

definition sql_update_progress :: "nat \<Rightarrow> string \<Rightarrow> nat \<Rightarrow> unit stmt" where
  "sql_update_progress now new_status i t =
     Inr ([], t\<lparr>progress :=
                  map (\<lambda>r. if p_id r = i then r\<lparr>status := new_status, updated_at := now\<rparr> else r)
                    (progress t)\<rparr>)"

text \<open>
  \<open>INSERT INTO progress (user_id, subject, chapter_name, component, status)
  VALUES (?,?,?,?,?)\<close>; the table has no uniqueness constraint besides its primary key.
\<close>

definition sql_insert_progress ::
  "nat \<Rightarrow> nat \<Rightarrow> string \<Rightarrow> string \<Rightarrow> string \<Rightarrow> string \<Rightarrow> unit stmt" where
  "sql_insert_progress now uid subj chap cmp new_status t =
     (let i = next_id (progress_seq t) (map p_id (progress t))
      in Inr ([], t\<lparr>progress := progress t @
                      [\<lparr>p_id = i, p_user_id = uid, subject = subj, chapter_name = chap,
                        component = cmp, status = new_status, updated_at = now\<rparr>],
                    progress_seq := i\<rparr>))"

text \<open>\<open>SELECT count(*) FROM progress WHERE user_id = ? AND status = 'Fait'\<close>\<close>

definition sql_count_fait :: "nat \<Rightarrow> nat stmt" where
  "sql_count_fait uid t =
     Inr ([length (filter (\<lambda>r. p_user_id r = uid \<and> status r = ''Fait'') (progress t))], t)"

subsection \<open>Statements on audit\_logs\<close>

text \<open>\<open>INSERT INTO audit_logs (user_id, action, details) VALUES (?, ?, ?)\<close>\<close>

definition sql_insert_audit :: "nat \<Rightarrow> nat \<Rightarrow> string \<Rightarrow> string \<Rightarrow> unit stmt" where
  "sql_insert_audit now uid act det t =
     (let i = next_id (audit_seq t) (map a_id (audit_logs t))
      in Inr ([], t\<lparr>audit_logs := audit_logs t @
                      [\<lparr>a_id = i, a_user_id = uid, action = act, details = det,
                        timestamp = now\<rparr>],
                    audit_seq := i\<rparr>))"

section \<open>run\_query and log\_audit\<close>

text \<open>
  \<open>run_query(query, params=(), fetch=True)\<close>: connect, execute, then either fetch and
  close, or commit and close. There is no handler around \<open>c.execute\<close>: when it raises,
  the exception leaves the function before \<open>conn.close()\<close>. With \<open>fetch\<close> the
  connection is closed without a commit, so what the statement wrote is dropped with
  the transaction. The result is the fetched rows, or \<open>None\<close> after a commit.
\<close>

definition run_query :: "'a stmt \<Rightarrow> bool \<Rightarrow> env \<Rightarrow> (error + 'a list option) \<times> env" where
  "run_query query fetch e =
     (let e1 = e\<lparr>open_conns := Suc (open_conns e)\<rparr>
      in case query (db e1) of
           Inl err \<Rightarrow> (Inl err, e1)
         | Inr (data, t') \<Rightarrow>
             if fetch then (Inr (Some data), e1\<lparr>open_conns := open_conns e1 - 1\<rparr>)
             else (Inr None, e1\<lparr>db := t', open_conns := open_conns e1 - 1\<rparr>))"

definition log_audit :: "nat \<Rightarrow> nat \<Rightarrow> string \<Rightarrow> string \<Rightarrow> env \<Rightarrow> (error + unit) \<times> env" where
  "log_audit now user_id act det e =
     (case run_query (sql_insert_audit now user_id act det) False e of
        (Inl err, e') \<Rightarrow> (Inl err, e')
      | (Inr _, e') \<Rightarrow> (Inr (), e'))"

section \<open>Authentication\<close>

text \<open>
  \<open>passlib.hash.pbkdf2_sha256\<close> is a library outside the repository, so its
  digest is a parameter: \<open>hash_pw salt secret\<close> is the string that
  \<open>pbkdf2_sha256.hash(secret)\<close> returns when the library draws the salt \<open>salt\<close>,
  and \<open>verify_pw secret stored\<close> is what \<open>pbkdf2_sha256.verify(secret, stored)\<close>
  does with a secret it accepts: it compares, or raises when \<open>stored\<close> is not a hash
  it can parse.
\<close>

record hasher =
  hash_pw :: "string \<Rightarrow> string \<Rightarrow> string"
  verify_pw :: "string \<Rightarrow> string \<Rightarrow> error + bool"

text \<open>
  Both entry points of the library first validate the secret: one of more than
  \<open>MAX_PASSWORD_SIZE\<close> characters (4096 unless the environment of the process
  overrides it) raises \<open>PasswordSizeError\<close>. The password fields of the pages are
  \<open>st.text_input\<close> without \<open>max_chars\<close>, so such a secret can arrive. The
  length of a secret here stands for \<open>len(secret)\<close>, its number of characters.
\<close>

definition MAX_PASSWORD_SIZE :: nat where
  "MAX_PASSWORD_SIZE = 4096"

definition pbkdf2_sha256_hash :: "hasher \<Rightarrow> string \<Rightarrow> string \<Rightarrow> error + string" where
  "pbkdf2_sha256_hash H salt secret =
     (if length secret > MAX_PASSWORD_SIZE then Inl PasswordSizeError
      else Inr (hash_pw H salt secret))"

definition pbkdf2_sha256_verify :: "hasher \<Rightarrow> string \<Rightarrow> string \<Rightarrow> error + bool" where
  "pbkdf2_sha256_verify H secret stored =
     (if length secret > MAX_PASSWORD_SIZE then Inl PasswordSizeError
      else verify_pw H secret stored)"

definition DEFAULT_ADMIN_USER :: string where
  "DEFAULT_ADMIN_USER = ''admin''"

definition DEFAULT_ADMIN_PASS :: string where
  "DEFAULT_ADMIN_PASS = ''admin123''"

text \<open>The dictionary \<open>{"id": ..., "username": ..., "role": ...}\<close> that a login returns.\<close>

record session_user =
  s_id :: nat
  s_username :: string
  s_role :: string

text \<open>
  \<open>init_db\<close> works on a connection of its own. The three CREATE TABLE IF NOT EXISTS
  statements leave a store that has the tables as it is; \<open>c.fetchone()[0]\<close> reads the
  count, and the default admin is inserted when it is 0. Commit and close come last,
  so an exception on the way leaves the connection open and nothing committed.
\<close>

definition init_db :: "hasher \<Rightarrow> string \<Rightarrow> nat \<Rightarrow> env \<Rightarrow> (error + unit) \<times> env" where
  "init_db H salt now e =
     (let e1 = e\<lparr>open_conns := Suc (open_conns e)\<rparr>
      in case sql_count_users (db e1) of
           Inl err \<Rightarrow> (Inl err, e1)
         | Inr (rows, t1) \<Rightarrow>
             (case rows of
                [] \<Rightarrow> (Inl TypeError, e1)
              | n # _ \<Rightarrow>
                  if n = 0 then
                    (case pbkdf2_sha256_hash H salt DEFAULT_ADMIN_PASS of
                       Inl err \<Rightarrow> (Inl err, e1)
                     | Inr hashed_pw \<Rightarrow>
                         (case sql_insert_user now DEFAULT_ADMIN_USER hashed_pw ''admin'' t1 of
                            Inl err \<Rightarrow> (Inl err, e1)
                          | Inr (_, t2) \<Rightarrow>
                              (Inr (), e1\<lparr>db := t2, open_conns := open_conns e1 - 1\<rparr>)))
                  else (Inr (), e1\<lparr>db := t1, open_conns := open_conns e1 - 1\<rparr>)))"

text \<open>
  \<open>login_user(username, password)\<close>: the first row with that username, if any, and a
  verification of the password against its stored hash, which is reached only when
  there is such a row and whose exceptions are not caught; \<open>None\<close> when there is no
  row or the verification returns \<open>False\<close>.
\<close>

definition login_user ::
  "hasher \<Rightarrow> string \<Rightarrow> string \<Rightarrow> env \<Rightarrow> (error + session_user option) \<times> env" where
  "login_user H name pw e =
     (case run_query (sql_select_user name) True e of
        (Inl err, e') \<Rightarrow> (Inl err, e')
      | (Inr user, e') \<Rightarrow>
          (case user of
             Some ((user_id, db_user, db_pass, r) # _) \<Rightarrow>
               (case pbkdf2_sha256_verify H pw db_pass of
                  Inl err \<Rightarrow> (Inl err, e')
                | Inr ok \<Rightarrow>
                    if ok
                    then (Inr (Some \<lparr>s_id = user_id, s_username = db_user, s_role = r\<rparr>), e')
                    else (Inr None, e'))
           | _ \<Rightarrow> (Inr None, e')))"

text \<open>
  \<open>create_user(username, password, role)\<close>: the \<open>try\<close> block hashes the password
  and then inserts the row; \<open>True\<close> when it ends, \<open>False\<close> when it raises
  IntegrityError. Any other exception, such as the one of the hash for a password that
  is too long, is not caught.
\<close>

definition create_user ::
  "hasher \<Rightarrow> string \<Rightarrow> nat \<Rightarrow> string \<Rightarrow> string \<Rightarrow> string \<Rightarrow> env \<Rightarrow> (error + bool) \<times> env" where
  "create_user H salt now name pw r e =
     (case (case pbkdf2_sha256_hash H salt pw of
              Inl err \<Rightarrow> (Inl err, e)
            | Inr hashed \<Rightarrow> run_query (sql_insert_user now name hashed r) False e) of
        (Inl IntegrityError, e') \<Rightarrow> (Inr False, e')
      | (Inl err, e') \<Rightarrow> (Inl err, e')
      | (Inr _, e') \<Rightarrow> (Inr True, e'))"

section \<open>The catalog and the completion rate\<close>

text \<open>
  \<open>DEFAULT_SUBJECTS\<close>, a dictionary from subject to chapters, as the list of its items.
  The accented letters are written as their UTF-8 bytes.
\<close>

definition DEFAULT_SUBJECTS :: "(string \<times> string list) list" where
  "DEFAULT_SUBJECTS =
     [(''Math'' @ [CHR 0xC3, CHR 0xA9] @ ''matiques'',
         [''Alg'' @ [CHR 0xC3, CHR 0xA8] @ ''bre Lin'' @ [CHR 0xC3, CHR 0xA9] @ ''aire'',
          ''Analyse R'' @ [CHR 0xC3, CHR 0xA9] @ ''elle'',
          ''Probabilit'' @ [CHR 0xC3, CHR 0xA9] @ ''s'']),
      (''Physique'',
         [''M'' @ [CHR 0xC3, CHR 0xA9] @ ''canique du Point'',
          ''Thermodynamique'',
          [CHR 0xC3, CHR 0x89] @ ''lectromagn'' @ [CHR 0xC3, CHR 0xA9] @ ''tisme'']),
      (''Informatique'',
         [''Python Intro'',
          ''Structures de Donn'' @ [CHR 0xC3, CHR 0xA9] @ ''es'',
          ''Algorithmes''])]"

text \<open>\<open>sum(len(chaps)*3 for chaps in DEFAULT_SUBJECTS.values())\<close>, for any catalog.\<close>

definition total_ops :: "(string \<times> string list) list \<Rightarrow> nat" where
  "total_ops subjects = sum_list (map (\<lambda>(subj, chaps). length chaps * 3) subjects)"

text \<open>
  The rate that \<open>view_dashboard\<close> shows: \<open>progress_data[0][0]\<close> is the count of the
  user's rows with status 'Fait'; the quotient is taken in the real numbers, where
  Python computes it in double precision.
\<close>

definition global_rate ::
  "(string \<times> string list) list \<Rightarrow> nat \<Rightarrow> env \<Rightarrow> (error + real) \<times> env" where
  "global_rate subjects user_id e =
     (case run_query (sql_count_fait user_id) True e of
        (Inl err, e') \<Rightarrow> (Inl err, e')
      | (Inr progress_data, e') \<Rightarrow>
          (case progress_data of
             None \<Rightarrow> (Inl TypeError, e')
           | Some [] \<Rightarrow> (Inl IndexError, e')
           | Some (completed_tasks # _) \<Rightarrow>
               (Inr (if total_ops subjects > 0
                     then (real completed_tasks / real (total_ops subjects)) * 100
                     else 0), e')))"

section \<open>Reading and writing a status in view\_subjects\<close>

definition STATUS_OPTS :: "string list" where
  "STATUS_OPTS = [''Non fait'', ''En cours'', ''Fait'']"

text \<open>Python's \<open>list.index\<close>: the first position of the element, or ValueError.\<close>

fun index_of :: "'a list \<Rightarrow> 'a \<Rightarrow> error + nat" where
  "index_of [] y = Inl ValueError"
| "index_of (x # xs) y =
     (if x = y then Inr 0
      else case index_of xs y of Inl err \<Rightarrow> Inl err | Inr i \<Rightarrow> Inr (Suc i))"

text \<open>\<open>current_status = res[0][0] if res else "Non fait"\<close>, after the query for the key.\<close>

definition current_status ::
  "nat \<Rightarrow> string \<Rightarrow> string \<Rightarrow> string \<Rightarrow> env \<Rightarrow> (error + string) \<times> env" where
  "current_status user_id subj chap cmp e =
     (case run_query (sql_select_status user_id subj chap cmp) True e of
        (Inl err, e') \<Rightarrow> (Inl err, e')
      | (Inr res, e') \<Rightarrow>
          (Inr (case res of Some (s # _) \<Rightarrow> s | _ \<Rightarrow> ''Non fait''), e'))"

text \<open>
  \<open>current_idx = STATUS_OPTS.index(current_status) if current_status in STATUS_OPTS
  else 0\<close>
\<close>

definition current_idx :: "string \<Rightarrow> error + nat" where
  "current_idx cs = (if cs \<in> set STATUS_OPTS then index_of STATUS_OPTS cs else Inr 0)"

text \<open>
  What the editor reads for one selectbox before it draws it: the current status and
  the index it preselects.
\<close>

definition read_status ::
  "nat \<Rightarrow> string \<Rightarrow> string \<Rightarrow> string \<Rightarrow> env \<Rightarrow> (error + string \<times> nat) \<times> env" where
  "read_status user_id subj chap cmp e =
     (case current_status user_id subj chap cmp e of
        (Inl err, e') \<Rightarrow> (Inl err, e')
      | (Inr cs, e') \<Rightarrow>
          (case current_idx cs of
             Inl err \<Rightarrow> (Inl err, e')
           | Inr i \<Rightarrow> (Inr (cs, i), e')))"

text \<open>The detail string \<open>f"{subj} > {chap} > {comp} : {new_status}"\<close>\<close>

definition audit_details :: "string \<Rightarrow> string \<Rightarrow> string \<Rightarrow> string \<Rightarrow> string" where
  "audit_details subj chap cmp new_status =
     subj @ '' > '' @ chap @ '' > '' @ cmp @ '' : '' @ new_status"

text \<open>
  The handling of one selectbox whose value is \<open>new_status\<close>: the read of the current
  status, and under \<open>if new_status != current_status\<close> the check-then-write on
  progress followed by \<open>log_audit\<close>. The two writes read CURRENT\_TIMESTAMP one after
  the other: \<open>now\<close> for the progress row, \<open>now'\<close> for the audit row.
\<close>

definition set_status ::
  "nat \<Rightarrow> nat \<Rightarrow> nat \<Rightarrow> string \<Rightarrow> string \<Rightarrow> string \<Rightarrow> string \<Rightarrow> env \<Rightarrow> (error + unit) \<times> env" where
  "set_status now now' user_id subj chap cmp new_status e =
     (case current_status user_id subj chap cmp e of
        (Inl err, e1) \<Rightarrow> (Inl err, e1)
      | (Inr cs, e1) \<Rightarrow>
          if new_status \<noteq> cs then
            (case run_query (sql_select_progress_id user_id subj chap cmp) True e1 of
               (Inl err, e2) \<Rightarrow> (Inl err, e2)
             | (Inr exists, e2) \<Rightarrow>
                 (case (case exists of
                          Some (i # _) \<Rightarrow>
                            run_query (sql_update_progress now new_status i) False e2
                        | _ \<Rightarrow>
                            run_query
                              (sql_insert_progress now user_id subj chap cmp new_status)
                              False e2) of
                    (Inl err, e3) \<Rightarrow> (Inl err, e3)
                  | (Inr _, e3) \<Rightarrow>
                      log_audit now' user_id ''UPDATE_PROGRESS''
                        (audit_details subj chap cmp new_status) e3))
          else (Inr (), e1))"

section \<open>Notions for stating the properties\<close>

text \<open>The rows of progress for a composite key, in rowid order.\<close>

definition key_rows :: "nat \<Rightarrow> string \<Rightarrow> string \<Rightarrow> string \<Rightarrow> tables \<Rightarrow> progress_row list" where
  "key_rows uid subj chap cmp t = filter (key_matches uid subj chap cmp) (progress t)"

text \<open>The status a key has in the store: that of its first row, or the default.\<close>

definition stored_status :: "nat \<Rightarrow> string \<Rightarrow> string \<Rightarrow> string \<Rightarrow> tables \<Rightarrow> string" where
  "stored_status uid subj chap cmp t =
     (case key_rows uid subj chap cmp t of [] \<Rightarrow> ''Non fait'' | r # _ \<Rightarrow> status r)"

text \<open>A row after the SET clause of the UPDATE.\<close>

definition touch :: "nat \<Rightarrow> string \<Rightarrow> progress_row \<Rightarrow> progress_row" where
  "touch now s r = r\<lparr>status := s, updated_at := now\<rparr>"

text \<open>The rows of users with a given username.\<close>

definition user_rows :: "string \<Rightarrow> tables \<Rightarrow> user_row list" where
  "user_rows name t = filter (\<lambda>r. username r = name) (users t)"

text \<open>The number of a user's rows with status 'Fait'.\<close>

definition fait_count :: "nat \<Rightarrow> tables \<Rightarrow> nat" where
  "fait_count uid t =
     length (filter (\<lambda>r. p_user_id r = uid \<and> status r = ''Fait'') (progress t))"

subsection \<open>Concrete stores and a concrete hasher\<close>

text \<open>
  A salted toy digest that meets the contract of the library (a hash verifies against
  the secret it was made from, and against no other), an empty store, the store after the first \<open>init_db\<close>,
  and that store after one status has been set.
\<close>

definition demo_hasher :: hasher where
  "demo_hasher =
     \<lparr>hash_pw = (\<lambda>salt secret. salt @ ''$'' @ secret),
      verify_pw = (\<lambda>secret stored.
         if CHR ''$'' \<in> set stored
         then Inr (drop (length stored - Suc (length secret)) stored = ''$'' @ secret)
         else Inl ValueError)\<rparr>"

definition fresh_env :: env where
  "fresh_env =
     \<lparr>db = \<lparr>users = [], progress = [], audit_logs = [],
             users_seq = 0, progress_seq = 0, audit_seq = 0\<rparr>,
      open_conns = 0\<rparr>"

definition seeded_env :: env where
  "seeded_env =
     \<lparr>db = \<lparr>users = [\<lparr>u_id = 1, username = ''admin'', password = ''salt$admin123'',
                        role = ''admin'', created_at = 0\<rparr>],
             progress = [], audit_logs = [],
             users_seq = 1, progress_seq = 0, audit_seq = 0\<rparr>,
      open_conns = 0\<rparr>"

definition one_row_env :: env where
  "one_row_env =
     \<lparr>db = \<lparr>users = [\<lparr>u_id = 1, username = ''admin'', password = ''salt$admin123'',
                        role = ''admin'', created_at = 0\<rparr>],
             progress = [\<lparr>p_id = 1, p_user_id = 1, subject = ''Physique'',
                           chapter_name = ''Thermodynamique'', component = ''TD'',
                           status = ''Fait'', updated_at = 10\<rparr>],
             audit_logs = [\<lparr>a_id = 1, a_user_id = 1, action = ''UPDATE_PROGRESS'',
                             details = ''Physique > Thermodynamique > TD : Fait'',
                             timestamp = 11\<rparr>],
             users_seq = 1, progress_seq = 1, audit_seq = 1\<rparr>,
      open_conns = 0\<rparr>"

text \<open>
  A store where user 1 has nine rows with status 'Fait' and one 'En cours', and a store
  whose only progress row holds a status outside \<open>STATUS_OPTS\<close>.
\<close>

definition nine_fait_env :: env where
  "nine_fait_env =
     \<lparr>db = \<lparr>users = [\<lparr>u_id = 1, username = ''admin'', password = ''salt$admin123'',
                        role = ''admin'', created_at = 0\<rparr>],
             progress =
               map (\<lambda>(i, subj, chap, cmp, s).
                      \<lparr>p_id = i, p_user_id = 1, subject = subj, chapter_name = chap,
                        component = cmp, status = s, updated_at = i\<rparr>)
                 [(1, ''Physique'', ''Thermodynamique'', ''Cours'', ''Fait''),
                  (2, ''Physique'', ''Thermodynamique'', ''TD'', ''Fait''),
                  (3, ''Physique'', ''Thermodynamique'', ''TP'', ''Fait''),
                  (4, ''Informatique'', ''Python Intro'', ''Cours'', ''Fait''),
                  (5, ''Informatique'', ''Python Intro'', ''TD'', ''Fait''),
                  (6, ''Informatique'', ''Python Intro'', ''TP'', ''Fait''),
                  (7, ''Informatique'', ''Algorithmes'', ''Cours'', ''Fait''),
                  (8, ''Informatique'', ''Algorithmes'', ''TD'', ''Fait''),
                  (9, ''Informatique'', ''Algorithmes'', ''TP'', ''Fait''),
                  (10, ''Informatique'', ''Structures de Donn'' @ [CHR 0xC3, CHR 0xA9] @ ''es'', ''TP'',
                   ''En cours'')],
             audit_logs = [],
             users_seq = 1, progress_seq = 10, audit_seq = 0\<rparr>,
      open_conns = 0\<rparr>"

definition junk_status_env :: env where
  "junk_status_env =
     \<lparr>db = \<lparr>users = [\<lparr>u_id = 1, username = ''admin'', password = ''salt$admin123'',
                        role = ''admin'', created_at = 0\<rparr>],
             progress = [\<lparr>p_id = 1, p_user_id = 1, subject = ''Physique'',
                           chapter_name = ''Thermodynamique'', component = ''TD'',
                           status = ''Termine'', updated_at = 10\<rparr>],
             audit_logs = [],
             users_seq = 1, progress_seq = 1, audit_seq = 0\<rparr>,
      open_conns = 0\<rparr>"

section \<open>What run\_query does with each statement\<close>

lemma run_query_raises:
  "query (db e) = Inl err \<Longrightarrow>
   run_query query fetch e = (Inl err, e\<lparr>open_conns := Suc (open_conns e)\<rparr>)"
  by (simp add: run_query_def)

lemma run_query_fetches:
  "query (db e) = Inr (data, t') \<Longrightarrow> run_query query True e = (Inr (Some data), e)"
  by (simp add: run_query_def)

lemma run_query_commits:
  "query (db e) = Inr (data, t') \<Longrightarrow> run_query query False e = (Inr None, e\<lparr>db := t'\<rparr>)"
  by (simp add: run_query_def)

section \<open>Reading a status\<close>

lemma current_status_eq:
  "current_status uid subj chap cmp e =
     (Inr (case key_rows uid subj chap cmp (db e) of [] \<Rightarrow> ''Non fait'' | r # _ \<Rightarrow> status r), e)"
  by (simp add: current_status_def key_rows_def sql_select_status_def run_query_fetches
      split: list.splits)

lemma run_query_select_progress_id:
  "run_query (sql_select_progress_id uid subj chap cmp) True e =
     (Inr (Some (map p_id (key_rows uid subj chap cmp (db e)))), e)"
  by (simp add: run_query_def sql_select_progress_id_def key_rows_def)

lemma run_query_update_progress:
  "run_query (sql_update_progress now s i) False e =
     (Inr None, e\<lparr>db := (db e)\<lparr>progress :=
        map (\<lambda>r. if p_id r = i then touch now s r else r) (progress (db e))\<rparr>\<rparr>)"
  by (simp add: run_query_def sql_update_progress_def touch_def)

lemma run_query_insert_progress:
  "run_query (sql_insert_progress now uid subj chap cmp s) False e =
     (Inr None, e\<lparr>db := (db e)\<lparr>
        progress := progress (db e) @
          [\<lparr>p_id = next_id (progress_seq (db e)) (map p_id (progress (db e))),
            p_user_id = uid, subject = subj, chapter_name = chap, component = cmp,
            status = s, updated_at = now\<rparr>],
        progress_seq := next_id (progress_seq (db e)) (map p_id (progress (db e)))\<rparr>\<rparr>)"
  by (simp add: run_query_def sql_insert_progress_def Let_def)

lemma log_audit_eq:
  "log_audit now uid act det e =
     (Inr (), e\<lparr>db := (db e)\<lparr>
        audit_logs := audit_logs (db e) @
          [\<lparr>a_id = next_id (audit_seq (db e)) (map a_id (audit_logs (db e))),
            a_user_id = uid, action = act, details = det, timestamp = now\<rparr>],
        audit_seq := next_id (audit_seq (db e)) (map a_id (audit_logs (db e)))\<rparr>\<rparr>)"
  by (simp add: log_audit_def run_query_def sql_insert_audit_def Let_def)

lemma current_status_stored:
  "current_status uid subj chap cmp e = (Inr (stored_status uid subj chap cmp (db e)), e)"
  by (simp add: current_status_eq stored_status_def)

section \<open>The three cases of set\_status\<close>

lemma set_status_same:
  "new_status = stored_status uid subj chap cmp (db e) \<Longrightarrow>
   set_status now now' uid subj chap cmp new_status e = (Inr (), e)"
  by (simp add: set_status_def current_status_stored)

lemma set_status_insert:
  assumes "key_rows uid subj chap cmp (db e) = []" and "new_status \<noteq> ''Non fait''"
  shows "set_status now now' uid subj chap cmp new_status e =
     log_audit now' uid ''UPDATE_PROGRESS'' (audit_details subj chap cmp new_status)
       (e\<lparr>db := (db e)\<lparr>
        progress := progress (db e) @
          [\<lparr>p_id = next_id (progress_seq (db e)) (map p_id (progress (db e))),
            p_user_id = uid, subject = subj, chapter_name = chap, component = cmp,
            status = new_status, updated_at = now\<rparr>],
        progress_seq := next_id (progress_seq (db e)) (map p_id (progress (db e)))\<rparr>\<rparr>)"
  using assms
  by (simp add: set_status_def current_status_stored stored_status_def
      run_query_select_progress_id run_query_insert_progress)

lemma set_status_update:
  assumes "key_rows uid subj chap cmp (db e) = r # rs" and "new_status \<noteq> status r"
  shows "set_status now now' uid subj chap cmp new_status e =
     log_audit now' uid ''UPDATE_PROGRESS'' (audit_details subj chap cmp new_status)
       (e\<lparr>db := (db e)\<lparr>progress :=
          map (\<lambda>x. if p_id x = p_id r then touch now new_status x else x)
            (progress (db e))\<rparr>\<rparr>)"
  using assms
  by (simp add: set_status_def current_status_stored stored_status_def
      run_query_select_progress_id run_query_update_progress)

lemma key_matches_touch [simp]:
  "key_matches uid subj chap cmp (touch now s x) = key_matches uid subj chap cmp x"
  by (simp add: key_matches_def touch_def)

lemma key_rows_touched:
  "filter (key_matches uid subj chap cmp)
     (map (\<lambda>x. if p_id x = i then touch now s x else x) P) =
   map (\<lambda>x. if p_id x = i then touch now s x else x)
     (filter (key_matches uid subj chap cmp) P)"
  by (induction P) auto

lemma touch_only_row:
  assumes "distinct (map p_id P)" and "r \<in> set P"
  shows "map (\<lambda>x. if p_id x = p_id r then f x else x) P =
         map (\<lambda>x. if x = r then f r else x) P"
proof (rule map_cong [OF refl])
  fix x assume "x \<in> set P"
  with assms have "p_id x = p_id r \<longleftrightarrow> x = r"
    by (auto simp: distinct_map dest: inj_onD)
  then show "(if p_id x = p_id r then f x else x) = (if x = r then f r else x)"
    by auto
qed

lemma log_audit_progress [simp]:
  "progress (db (snd (log_audit now uid act det e))) = progress (db e)"
  by (simp add: log_audit_eq)

lemma log_audit_ok [simp]: "fst (log_audit now uid act det e) = Inr ()"
  by (simp add: log_audit_eq)

lemma key_rows_log_audit [simp]:
  "key_rows uid subj chap cmp (db (snd (log_audit now u act det e))) =
   key_rows uid subj chap cmp (db e)"
  by (simp add: key_rows_def)

lemma stored_status_log_audit [simp]:
  "stored_status uid subj chap cmp (db (snd (log_audit now u act det e))) =
   stored_status uid subj chap cmp (db e)"
  by (simp add: stored_status_def)

lemma set_status_cases:
  obtains
    (same) "new_status = stored_status uid subj chap cmp (db e)"
  | (insert) "new_status \<noteq> stored_status uid subj chap cmp (db e)"
      "key_rows uid subj chap cmp (db e) = []" "new_status \<noteq> ''Non fait''"
  | (update) r rs where "new_status \<noteq> stored_status uid subj chap cmp (db e)"
      "key_rows uid subj chap cmp (db e) = r # rs" "new_status \<noteq> status r"
  by (cases "key_rows uid subj chap cmp (db e)") (auto simp: stored_status_def)

lemma key_rows_after_set_status:
  "key_rows uid subj chap cmp (db (snd (set_status now now' uid subj chap cmp new_status e))) =
     (if new_status = stored_status uid subj chap cmp (db e)
      then key_rows uid subj chap cmp (db e)
      else case key_rows uid subj chap cmp (db e) of
             [] \<Rightarrow> [\<lparr>p_id = next_id (progress_seq (db e)) (map p_id (progress (db e))),
                     p_user_id = uid, subject = subj, chapter_name = chap, component = cmp,
                     status = new_status, updated_at = now\<rparr>]
           | r # rs \<Rightarrow> touch now new_status r #
                map (\<lambda>x. if p_id x = p_id r then touch now new_status x else x) rs)"
proof (cases rule: set_status_cases [of new_status uid subj chap cmp e])
  case same
  then show ?thesis by (simp add: set_status_same)
next
  case insert
  then show ?thesis
    by (simp add: set_status_insert) (simp add: key_rows_def key_matches_def)
next
  case (update r rs)
  have "key_rows uid subj chap cmp
          ((db e)\<lparr>progress := map (\<lambda>x. if p_id x = p_id r then touch now new_status x else x)
             (progress (db e))\<rparr>) =
        map (\<lambda>x. if p_id x = p_id r then touch now new_status x else x)
          (key_rows uid subj chap cmp (db e))"
    by (simp add: key_rows_def key_rows_touched)
  with update show ?thesis
    by (simp add: set_status_update)
qed

lemma stored_status_after_set_status:
  "stored_status uid subj chap cmp
     (db (snd (set_status now now' uid subj chap cmp new_status e))) = new_status"
proof (cases "new_status = stored_status uid subj chap cmp (db e)")
  case True
  then show ?thesis by (simp add: set_status_same)
next
  case False
  then show ?thesis
    unfolding stored_status_def [of _ _ _ _ "db (snd _)"] key_rows_after_set_status
    by (simp add: touch_def split: list.splits)
qed

lemma set_status_ok: "fst (set_status now now' uid subj chap cmp new_status e) = Inr ()"
  by (cases rule: set_status_cases [of new_status uid subj chap cmp e])
     (simp_all add: set_status_same set_status_insert set_status_update)

section \<open>The concrete stores are reachable\<close>

lemma seeded_env_init: "init_db demo_hasher ''salt'' 0 fresh_env = (Inr (), seeded_env)"
  by (simp add: init_db_def fresh_env_def seeded_env_def demo_hasher_def sql_count_users_def
      pbkdf2_sha256_hash_def MAX_PASSWORD_SIZE_def
      sql_insert_user_def next_id_def DEFAULT_ADMIN_USER_def DEFAULT_ADMIN_PASS_def)

lemma one_row_env_set:
  "set_status 10 11 1 ''Physique'' ''Thermodynamique'' ''TD'' ''Fait'' seeded_env =
   (Inr (), one_row_env)"
  by (simp add: set_status_insert key_rows_def seeded_env_def one_row_env_def log_audit_eq
      next_id_def audit_details_def)

section \<open>Accounts and the completion rate\<close>

lemma create_user_fresh:
  "length pw \<le> MAX_PASSWORD_SIZE \<Longrightarrow> name \<notin> set (map username (users (db e))) \<Longrightarrow>
   create_user H salt now name pw r e =
     (Inr True, e\<lparr>db := (db e)\<lparr>
        users := users (db e) @
          [\<lparr>u_id = next_id (users_seq (db e)) (map u_id (users (db e))), username = name,
            password = hash_pw H salt pw, role = r, created_at = now\<rparr>],
        users_seq := next_id (users_seq (db e)) (map u_id (users (db e)))\<rparr>\<rparr>)"
  by (simp add: create_user_def pbkdf2_sha256_hash_def run_query_def sql_insert_user_def
      Let_def)

lemma create_user_taken:
  "length pw \<le> MAX_PASSWORD_SIZE \<Longrightarrow> name \<in> set (map username (users (db e))) \<Longrightarrow>
   create_user H salt now name pw r e = (Inr False, e\<lparr>open_conns := Suc (open_conns e)\<rparr>)"
  by (simp add: create_user_def pbkdf2_sha256_hash_def run_query_def sql_insert_user_def
      Let_def)

lemma create_user_too_long:
  "length pw > MAX_PASSWORD_SIZE \<Longrightarrow>
   create_user H salt now name pw r e = (Inl PasswordSizeError, e)"
  by (simp add: create_user_def pbkdf2_sha256_hash_def)

lemma user_rows_distinct:
  "distinct (map username us) \<Longrightarrow> name \<in> set (map username us) \<Longrightarrow>
   length (filter (\<lambda>r. username r = name) us) = 1"
  by (induction us) (auto simp: filter_empty_conv image_iff)

lemma login_user_eq:
  "login_user H name pw e =
     (case user_rows name (db e) of
        [] \<Rightarrow> (Inr None, e)
      | r # _ \<Rightarrow>
          (case pbkdf2_sha256_verify H pw (password r) of
             Inl err \<Rightarrow> (Inl err, e)
           | Inr ok \<Rightarrow>
               (Inr (if ok
                     then Some \<lparr>s_id = u_id r, s_username = username r, s_role = role r\<rparr>
                     else None), e)))"
  by (simp add: login_user_def run_query_def sql_select_user_def user_rows_def
      split: list.splits sum.splits)

lemma total_ops_eq: "total_ops subjects = 3 * sum_list (map (\<lambda>p. length (snd p)) subjects)"
  unfolding total_ops_def by (induction subjects) auto

lemma global_rate_eq:
  "global_rate subjects uid e =
     (Inr (if total_ops subjects = 0 then 0
           else real (fait_count uid (db e)) / real (total_ops subjects) * 100), e)"
  by (simp add: global_rate_def run_query_def sql_count_fait_def fait_count_def)

section \<open>Claims\<close>

text \<open>
  C1 (as amended). \<open>set_status\<close> is an upsert under the guard
  \<open>new_status != current_status\<close>. When the new status equals the stored-or-default
  status of the key, the call changes nothing (no row is inserted and no timestamp is
  refreshed). When it differs and the key has no row, one row with the new status is
  appended. When it differs and the key has a row, the first such row gets the new
  status and timestamp in place, and with distinct identifiers no other row changes.
  A second call with the same status changes nothing; after it the key reads as that
  status, and the key has as many rows as before the first call, except that a key
  without rows has exactly one unless the status is the default "Non fait", in which
  case it still has none.
\<close>

theorem set_status_guarded_upsert:
  "(new_status = stored_status uid subj chap cmp (db e) \<longrightarrow>
      set_status now now' uid subj chap cmp new_status e = (Inr (), e)) \<and>
   (new_status \<noteq> stored_status uid subj chap cmp (db e) \<and>
    key_rows uid subj chap cmp (db e) = [] \<longrightarrow>
      progress (db (snd (set_status now now' uid subj chap cmp new_status e))) =
        progress (db e) @
          [\<lparr>p_id = next_id (progress_seq (db e)) (map p_id (progress (db e))),
            p_user_id = uid, subject = subj, chapter_name = chap, component = cmp,
            status = new_status, updated_at = now\<rparr>]) \<and>
   (\<forall>r rs. new_status \<noteq> stored_status uid subj chap cmp (db e) \<and>
      key_rows uid subj chap cmp (db e) = r # rs \<and>
      distinct (map p_id (progress (db e))) \<longrightarrow>
      progress (db (snd (set_status now now' uid subj chap cmp new_status e))) =
        map (\<lambda>x. if x = r then r\<lparr>status := new_status, updated_at := now\<rparr> else x)
          (progress (db e))) \<and>
   db (snd (set_status later later' uid subj chap cmp new_status
          (snd (set_status now now' uid subj chap cmp new_status e)))) =
     db (snd (set_status now now' uid subj chap cmp new_status e)) \<and>
   stored_status uid subj chap cmp
     (db (snd (set_status later later' uid subj chap cmp new_status
          (snd (set_status now now' uid subj chap cmp new_status e))))) = new_status \<and>
   length (key_rows uid subj chap cmp
     (db (snd (set_status later later' uid subj chap cmp new_status
          (snd (set_status now now' uid subj chap cmp new_status e)))))) =
     (if key_rows uid subj chap cmp (db e) = []
      then if new_status = ''Non fait'' then 0 else 1
      else length (key_rows uid subj chap cmp (db e)))"
proof -
  let ?e1 = "snd (set_status now now' uid subj chap cmp new_status e)"
  have again: "set_status later later' uid subj chap cmp new_status ?e1 = (Inr (), ?e1)"
    by (rule set_status_same) (simp add: stored_status_after_set_status)
  have same: "new_status = stored_status uid subj chap cmp (db e) \<longrightarrow>
      set_status now now' uid subj chap cmp new_status e = (Inr (), e)"
    by (simp add: set_status_same)
  have ins: "new_status \<noteq> stored_status uid subj chap cmp (db e) \<and>
    key_rows uid subj chap cmp (db e) = [] \<longrightarrow>
      progress (db ?e1) =
        progress (db e) @
          [\<lparr>p_id = next_id (progress_seq (db e)) (map p_id (progress (db e))),
            p_user_id = uid, subject = subj, chapter_name = chap, component = cmp,
            status = new_status, updated_at = now\<rparr>]"
    by (auto simp: stored_status_def set_status_insert)
  have upd: "\<forall>r rs. new_status \<noteq> stored_status uid subj chap cmp (db e) \<and>
      key_rows uid subj chap cmp (db e) = r # rs \<and>
      distinct (map p_id (progress (db e))) \<longrightarrow>
      progress (db ?e1) =
        map (\<lambda>x. if x = r then r\<lparr>status := new_status, updated_at := now\<rparr> else x)
          (progress (db e))"
  proof (intro allI impI, elim conjE)
    fix r rs
    assume ne: "new_status \<noteq> stored_status uid subj chap cmp (db e)"
      and rows: "key_rows uid subj chap cmp (db e) = r # rs"
      and ids: "distinct (map p_id (progress (db e)))"
    from rows have "r \<in> set (key_rows uid subj chap cmp (db e))" by simp
    then have mem: "r \<in> set (progress (db e))" by (simp add: key_rows_def)
    from ne rows have "new_status \<noteq> status r" by (simp add: stored_status_def)
    with rows have "progress (db ?e1) =
        map (\<lambda>x. if p_id x = p_id r then touch now new_status x else x) (progress (db e))"
      by (simp add: set_status_update)
    also have "\<dots> = map (\<lambda>x. if x = r then touch now new_status r else x) (progress (db e))"
      by (rule touch_only_row [OF ids mem])
    finally show "progress (db ?e1) =
        map (\<lambda>x. if x = r then r\<lparr>status := new_status, updated_at := now\<rparr> else x)
          (progress (db e))"
      by (simp add: touch_def)
  qed
  have len: "length (key_rows uid subj chap cmp (db ?e1)) =
     (if key_rows uid subj chap cmp (db e) = []
      then if new_status = ''Non fait'' then 0 else 1
      else length (key_rows uid subj chap cmp (db e)))"
    unfolding key_rows_after_set_status
    by (auto simp: stored_status_def split: list.splits)
  show ?thesis
    unfolding again snd_conv
    using same ins upd len stored_status_after_set_status by blast
qed

text \<open>
  C1 as stated fails: on a store where the key has no row, two calls with the status
  "Non fait" leave no row for the key, not exactly one.
\<close>

theorem set_status_default_counterexample:
  "length (key_rows 1 ''Physique'' ''Thermodynamique'' ''TD''
     (db (snd (set_status 3 4 1 ''Physique'' ''Thermodynamique'' ''TD'' ''Non fait''
        (snd (set_status 1 2 1 ''Physique'' ''Thermodynamique'' ''TD'' ''Non fait''
           seeded_env)))))) \<noteq> 1"
  by (simp add: set_status_def current_status_def run_query_def sql_select_status_def
      seeded_env_def key_rows_def)

text \<open>The three branches of C1 at concrete stores.\<close>

theorem set_status_guarded_upsert_witness:
  "set_status 30 31 1 ''Physique'' ''Thermodynamique'' ''TD'' ''Fait'' one_row_env =
     (Inr (), one_row_env) \<and>
   progress (db (snd (set_status 10 11 1 ''Physique'' ''Thermodynamique'' ''TD'' ''Fait''
       seeded_env))) =
     [\<lparr>p_id = 1, p_user_id = 1, subject = ''Physique'', chapter_name = ''Thermodynamique'',
       component = ''TD'', status = ''Fait'', updated_at = 10\<rparr>] \<and>
   progress (db (snd (set_status 20 21 1 ''Physique'' ''Thermodynamique'' ''TD'' ''En cours''
       one_row_env))) =
     [\<lparr>p_id = 1, p_user_id = 1, subject = ''Physique'', chapter_name = ''Thermodynamique'',
       component = ''TD'', status = ''En cours'', updated_at = 20\<rparr>]"
  using
    set_status_guarded_upsert [of "''Fait''" 1 "''Physique''" "''Thermodynamique''" "''TD''"
      one_row_env 30 31 40 41]
    set_status_guarded_upsert [of "''Fait''" 1 "''Physique''" "''Thermodynamique''" "''TD''"
      seeded_env 10 11 40 41]
    set_status_guarded_upsert [of "''En cours''" 1 "''Physique''" "''Thermodynamique''" "''TD''"
      one_row_env 20 21 40 41]
  by (simp add: stored_status_def key_rows_def key_matches_def one_row_env_def seeded_env_def
      next_id_def)

text \<open>
  C2. A call of \<open>set_status\<close> whose new status differs from the stored-or-default
  status of the key returns normally and appends exactly one row to audit\_logs: for
  that user, with action UPDATE\_PROGRESS, the detail string
  \<open>subj > chap > comp : new_status\<close> and the timestamp of the audit write. A call
  whose new status equals the current one leaves audit\_logs as it was.
\<close>

theorem set_status_audit:
  "(new_status \<noteq> stored_status uid subj chap cmp (db e) \<longrightarrow>
      fst (set_status now now' uid subj chap cmp new_status e) = Inr () \<and>
      audit_logs (db (snd (set_status now now' uid subj chap cmp new_status e))) =
        audit_logs (db e) @
          [\<lparr>a_id = next_id (audit_seq (db e)) (map a_id (audit_logs (db e))),
            a_user_id = uid, action = ''UPDATE_PROGRESS'',
            details = subj @ '' > '' @ chap @ '' > '' @ cmp @ '' : '' @ new_status,
            timestamp = now'\<rparr>]) \<and>
   (new_status = stored_status uid subj chap cmp (db e) \<longrightarrow>
      fst (set_status now now' uid subj chap cmp new_status e) = Inr () \<and>
      audit_logs (db (snd (set_status now now' uid subj chap cmp new_status e))) =
        audit_logs (db e))"
proof (cases rule: set_status_cases [of new_status uid subj chap cmp e])
  case same
  then show ?thesis by (simp add: set_status_same)
next
  case insert
  then show ?thesis by (simp add: set_status_insert log_audit_eq audit_details_def)
next
  case (update r rs)
  then show ?thesis by (simp add: set_status_update log_audit_eq audit_details_def)
qed

text \<open>C2 at a store with one row: a change appends one entry, a repetition none.\<close>

theorem set_status_audit_witness:
  "audit_logs (db (snd (set_status 20 21 1 ''Physique'' ''Thermodynamique'' ''TD'' ''En cours''
       one_row_env))) =
     [\<lparr>a_id = 1, a_user_id = 1, action = ''UPDATE_PROGRESS'',
       details = ''Physique > Thermodynamique > TD : Fait'', timestamp = 11\<rparr>,
      \<lparr>a_id = 2, a_user_id = 1, action = ''UPDATE_PROGRESS'',
       details = ''Physique > Thermodynamique > TD : En cours'', timestamp = 21\<rparr>] \<and>
   audit_logs (db (snd (set_status 30 31 1 ''Physique'' ''Thermodynamique'' ''TD'' ''Fait''
       one_row_env))) =
     [\<lparr>a_id = 1, a_user_id = 1, action = ''UPDATE_PROGRESS'',
       details = ''Physique > Thermodynamique > TD : Fait'', timestamp = 11\<rparr>]"
  using
    set_status_audit [of "''En cours''" 1 "''Physique''" "''Thermodynamique''" "''TD''"
      one_row_env 20 21]
    set_status_audit [of "''Fait''" 1 "''Physique''" "''Thermodynamique''" "''TD''"
      one_row_env 30 31]
  by (simp add: stored_status_def key_rows_def key_matches_def one_row_env_def next_id_def)

text \<open>
  C3. \<open>current_status\<close> returns the default "Non fait" when the key has no row in
  progress, and the stored status of the key's (first) row when it has one; the store
  is left as it was.
\<close>

theorem current_status_stored_or_default:
  "(key_rows uid subj chap cmp (db e) = [] \<longrightarrow>
      current_status uid subj chap cmp e = (Inr ''Non fait'', e)) \<and>
   (\<forall>r rs. key_rows uid subj chap cmp (db e) = r # rs \<longrightarrow>
      current_status uid subj chap cmp e = (Inr (status r), e))"
  by (simp add: current_status_eq)

text \<open>C3 at a key without a row and at a key with one.\<close>

theorem current_status_stored_or_default_witness:
  "current_status 1 ''Physique'' ''Thermodynamique'' ''TP'' one_row_env =
     (Inr ''Non fait'', one_row_env) \<and>
   current_status 1 ''Physique'' ''Thermodynamique'' ''TD'' one_row_env =
     (Inr ''Fait'', one_row_env)"
  using
    current_status_stored_or_default [of 1 "''Physique''" "''Thermodynamique''" "''TP''"
      one_row_env]
    current_status_stored_or_default [of 1 "''Physique''" "''Thermodynamique''" "''TD''"
      one_row_env]
  by (simp add: key_rows_def key_matches_def one_row_env_def)

text \<open>
  C4. \<open>global_rate\<close> is the number of the user's progress rows with status 'Fait'
  divided by the catalog total and multiplied by 100, and 0 when the catalog total is
  zero; the catalog total is three times the number of chapters over all subjects.
  With a total of 27 and nine such rows the rate is within 0.1 of 33.3, and so is
  every number within a relative error of \<open>2^-50\<close> of it. The quotient is the exact
  one in the real numbers; the last part covers the two roundings of Python's
  double-precision division and multiplication.
\<close>

theorem global_rate_value:
  "global_rate subjects uid e =
     (Inr (if total_ops subjects = 0 then 0
           else real (fait_count uid (db e)) / real (total_ops subjects) * 100), e) \<and>
   total_ops subjects = 3 * sum_list (map (\<lambda>p. length (snd p)) subjects) \<and>
   (total_ops subjects = 27 \<and> fait_count uid (db e) = 9 \<longrightarrow>
      (\<exists>x. global_rate subjects uid e = (Inr x, e) \<and> \<bar>x - 33.3\<bar> \<le> 0.1 \<and>
           (\<forall>y. \<bar>y - x\<bar> \<le> x / 2 ^ 50 \<longrightarrow> \<bar>y - 33.3\<bar> \<le> 0.1)))"
proof (intro conjI impI)
  show "global_rate subjects uid e =
     (Inr (if total_ops subjects = 0 then 0
           else real (fait_count uid (db e)) / real (total_ops subjects) * 100), e)"
    by (rule global_rate_eq)
  show "total_ops subjects = 3 * sum_list (map (\<lambda>p. length (snd p)) subjects)"
    by (rule total_ops_eq)
next
  assume h: "total_ops subjects = 27 \<and> fait_count uid (db e) = 9"
  then have r: "global_rate subjects uid e = (Inr (100 / 3), e)"
    by (simp add: global_rate_eq)
  have near: "\<bar>100 / 3 - 33.3\<bar> \<le> (0.1::real)"
    by simp
  have rounded: "\<forall>y::real. \<bar>y - 100 / 3\<bar> \<le> (100 / 3) / 2 ^ 50 \<longrightarrow> \<bar>y - 33.3\<bar> \<le> 0.1"
  proof (intro allI impI)
    fix y :: real
    assume "\<bar>y - 100 / 3\<bar> \<le> (100 / 3) / 2 ^ 50"
    moreover have "(100 / 3) / 2 ^ 50 \<le> (1 / 100::real)"
      by simp
    ultimately have b: "\<bar>y - 100 / 3\<bar> \<le> 1 / 100"
      by linarith
    then show "\<bar>y - 33.3\<bar> \<le> 0.1"
      by linarith
  qed
  from r near rounded
  show "\<exists>x. global_rate subjects uid e = (Inr x, e) \<and> \<bar>x - 33.3\<bar> \<le> 0.1 \<and>
           (\<forall>y. \<bar>y - x\<bar> \<le> x / 2 ^ 50 \<longrightarrow> \<bar>y - 33.3\<bar> \<le> 0.1)"
    by blast
qed

text \<open>
  C4 at the catalog of the program with nine rows 'Fait', with the decimal that Python
  prints for the rate, and at an empty catalog.
\<close>

theorem global_rate_value_witness:
  "total_ops DEFAULT_SUBJECTS = 27 \<and> fait_count 1 (db nine_fait_env) = 9 \<and>
   global_rate DEFAULT_SUBJECTS 1 nine_fait_env = (Inr (100 / 3), nine_fait_env) \<and>
   \<bar>100 / 3 - 33.3\<bar> \<le> (0.1::real) \<and>
   \<bar>33.33333333333333 - 33.3\<bar> \<le> (0.1::real) \<and>
   global_rate [] 1 nine_fait_env = (Inr 0, nine_fait_env)"
proof -
  have t: "total_ops DEFAULT_SUBJECTS = 27"
    by (simp add: total_ops_def DEFAULT_SUBJECTS_def)
  have c: "fait_count 1 (db nine_fait_env) = 9"
    by (simp add: fait_count_def nine_fait_env_def)
  have z: "total_ops [] = 0"
    by (simp add: total_ops_def)
  from global_rate_value [of DEFAULT_SUBJECTS 1 nine_fait_env] t c
  obtain x where x: "global_rate DEFAULT_SUBJECTS 1 nine_fait_env = (Inr x, nine_fait_env)"
    and near: "\<bar>x - 33.3\<bar> \<le> 0.1"
    and rounded: "\<forall>y. \<bar>y - x\<bar> \<le> x / 2 ^ 50 \<longrightarrow> \<bar>y - 33.3\<bar> \<le> 0.1"
    by blast
  from global_rate_value [of DEFAULT_SUBJECTS 1 nine_fait_env] t c x
  have x3: "x = 100 / 3"
    by simp
  have "\<bar>33.33333333333333 - 100 / 3\<bar> \<le> (100 / 3) / (2::real) ^ 50"
    by simp
  with rounded x3 have py: "\<bar>33.33333333333333 - 33.3\<bar> \<le> (0.1::real)"
    by blast
  from global_rate_value [of "[]" 1 nine_fait_env] z
  have r0: "global_rate [] 1 nine_fait_env = (Inr 0, nine_fait_env)"
    by simp
  from t c x x3 near py r0 show ?thesis
    by blast
qed

text \<open>
  C5 (as amended). On a store whose usernames are distinct (the UNIQUE constraint) and
  for passwords that the hash accepts (at most 4096 characters each), after a call of
  \<open>create_user\<close> for a username a second call for the same username, with any such
  password and any role, returns \<open>False\<close>, leaves the tables as the first call
  left them, and exactly one row of users has that username.
\<close>

theorem create_user_twice:
  assumes "distinct (map username (users (db e)))"
    and "length pw \<le> MAX_PASSWORD_SIZE" and "length pw' \<le> MAX_PASSWORD_SIZE"
  shows "fst (create_user H salt' now' name pw' r'
                (snd (create_user H salt now name pw r e))) = Inr False \<and>
         db (snd (create_user H salt' now' name pw' r'
                (snd (create_user H salt now name pw r e)))) =
           db (snd (create_user H salt now name pw r e)) \<and>
         length (user_rows name (db (snd (create_user H salt' now' name pw' r'
                (snd (create_user H salt now name pw r e)))))) = 1"
proof -
  let ?e1 = "snd (create_user H salt now name pw r e)"
  have taken: "name \<in> set (map username (users (db ?e1)))"
    using assms(2)
    by (cases "name \<in> set (map username (users (db e)))")
       (simp_all add: create_user_fresh create_user_taken)
  have dist: "distinct (map username (users (db ?e1)))"
    using assms(1,2)
    by (cases "name \<in> set (map username (users (db e)))")
       (simp_all add: create_user_fresh create_user_taken)
  have one: "length (user_rows name (db ?e1)) = 1"
    unfolding user_rows_def by (rule user_rows_distinct [OF dist taken])
  show ?thesis
    using one by (simp add: create_user_taken [OF assms(3) taken] user_rows_def)
qed

text \<open>
  C5 as stated fails for "any passwords": when the second password has 4097
  characters, the hash raises PasswordSizeError inside the \<open>try\<close> block, and the
  handler for IntegrityError does not catch it, so the second call does not return
  \<open>False\<close>.
\<close>

theorem create_user_long_password_counterexample:
  "fst (create_user demo_hasher ''s2'' 8 ''alice'' (replicate 4097 (CHR ''x'')) ''admin''
          (snd (create_user demo_hasher ''s1'' 7 ''alice'' ''secret'' ''student'' seeded_env))) =
     Inl PasswordSizeError \<and>
   fst (create_user demo_hasher ''s2'' 8 ''alice'' (replicate 4097 (CHR ''x'')) ''admin''
          (snd (create_user demo_hasher ''s1'' 7 ''alice'' ''secret'' ''student'' seeded_env))) \<noteq>
     Inr False"
  by (simp add: create_user_too_long MAX_PASSWORD_SIZE_def)

text \<open>C5 at the seeded store and a new username.\<close>

theorem create_user_twice_witness:
  "fst (create_user demo_hasher ''s2'' 8 ''alice'' ''other'' ''admin''
          (snd (create_user demo_hasher ''s1'' 7 ''alice'' ''secret'' ''student'' seeded_env))) =
     Inr False \<and>
   users (db (snd (create_user demo_hasher ''s2'' 8 ''alice'' ''other'' ''admin''
          (snd (create_user demo_hasher ''s1'' 7 ''alice'' ''secret'' ''student'' seeded_env))))) =
     [\<lparr>u_id = 1, username = ''admin'', password = ''salt$admin123'', role = ''admin'',
       created_at = 0\<rparr>,
      \<lparr>u_id = 2, username = ''alice'', password = ''s1$secret'', role = ''student'',
       created_at = 7\<rparr>]"
proof -
  have d: "distinct (map username (users (db seeded_env)))"
    by (simp add: seeded_env_def)
  have f: "''alice'' \<notin> set (map username (users (db seeded_env)))"
    by (simp add: seeded_env_def)
  have l: "length ''secret'' \<le> MAX_PASSWORD_SIZE"
    by (simp add: MAX_PASSWORD_SIZE_def)
  have l': "length ''other'' \<le> MAX_PASSWORD_SIZE"
    by (simp add: MAX_PASSWORD_SIZE_def)
  have s: "users (db (snd (create_user demo_hasher ''s1'' 7 ''alice'' ''secret'' ''student''
      seeded_env))) =
     [\<lparr>u_id = 1, username = ''admin'', password = ''salt$admin123'', role = ''admin'',
       created_at = 0\<rparr>,
      \<lparr>u_id = 2, username = ''alice'', password = ''s1$secret'', role = ''student'',
       created_at = 7\<rparr>]"
    by (simp add: create_user_fresh [OF l f])
       (simp add: seeded_env_def demo_hasher_def next_id_def)
  from create_user_twice [OF d l l', of demo_hasher "''s2''" 8 "''alice''" "''admin''"
        "''s1''" 7 "''student''"]
  show ?thesis
    by (simp add: s)
qed

text \<open>
  C6. For a username not yet in users and a password that the library accepts (at most
  4096 characters) and whose hash verifies against it, \<open>create_user\<close> returns
  \<open>True\<close> and a \<open>login_user\<close> right after it with the same username and password
  returns the user with that username and role.
\<close>

theorem create_then_login:
  assumes "length pw \<le> MAX_PASSWORD_SIZE"
    and "verify_pw H pw (hash_pw H salt pw) = Inr True"
    and "name \<notin> set (map username (users (db e)))"
  shows "fst (create_user H salt now name pw r e) = Inr True \<and>
         fst (login_user H name pw (snd (create_user H salt now name pw r e))) =
           Inr (Some \<lparr>s_id = next_id (users_seq (db e)) (map u_id (users (db e))),
                      s_username = name, s_role = r\<rparr>)"
proof -
  from assms(3) have "filter (\<lambda>r. username r = name) (users (db e)) = []"
    by (auto simp: filter_empty_conv)
  with assms show ?thesis
    by (simp add: create_user_fresh login_user_eq user_rows_def pbkdf2_sha256_verify_def)
qed

text \<open>C6 at the seeded store with the toy digest.\<close>

theorem create_then_login_witness:
  "fst (login_user demo_hasher ''alice'' ''secret''
     (snd (create_user demo_hasher ''s1'' 7 ''alice'' ''secret'' ''student'' seeded_env))) =
   Inr (Some \<lparr>s_id = 2, s_username = ''alice'', s_role = ''student''\<rparr>)"
proof -
  have l: "length ''secret'' \<le> MAX_PASSWORD_SIZE"
    by (simp add: MAX_PASSWORD_SIZE_def)
  have v: "verify_pw demo_hasher ''secret'' (hash_pw demo_hasher ''s1'' ''secret'') = Inr True"
    by (simp add: demo_hasher_def)
  have f: "''alice'' \<notin> set (map username (users (db seeded_env)))"
    by (simp add: seeded_env_def)
  show ?thesis
    using create_then_login [OF l v f, of 7 "''student''"]
    by (simp add: seeded_env_def next_id_def)
qed




text \<open>
  C8. \<open>init_db\<close> inserts exactly one row, the default admin with username "admin",
  role "admin" and the hash of "admin123" as password, when users has no row, whatever
  identifiers were handed out before; when users has a row it leaves the store as it
  is.
\<close>

theorem init_db_seeding:
  "(users (db e) = [] \<longrightarrow>
      init_db H salt now e =
        (Inr (), e\<lparr>db := (db e)\<lparr>
           users := [\<lparr>u_id = Suc (users_seq (db e)), username = ''admin'',
                      password = hash_pw H salt ''admin123'', role = ''admin'',
                      created_at = now\<rparr>],
           users_seq := Suc (users_seq (db e))\<rparr>\<rparr>)) \<and>
   (users (db e) \<noteq> [] \<longrightarrow> init_db H salt now e = (Inr (), e))"
  by (simp add: init_db_def sql_count_users_def sql_insert_user_def next_id_def
      pbkdf2_sha256_hash_def MAX_PASSWORD_SIZE_def DEFAULT_ADMIN_USER_def
      DEFAULT_ADMIN_PASS_def Let_def)

text \<open>C8 at the empty store and at the store it produces.\<close>

theorem init_db_seeding_witness:
  "init_db demo_hasher ''salt'' 0 fresh_env = (Inr (), seeded_env) \<and>
   init_db demo_hasher ''pepper'' 9 seeded_env = (Inr (), seeded_env)"
  using init_db_seeding [of fresh_env demo_hasher "''salt''" 0]
    init_db_seeding [of seeded_env demo_hasher "''pepper''" 9]
  by (simp add: fresh_env_def seeded_env_def demo_hasher_def)

text \<open>
  C9 (as amended). When executing the statement does not raise, \<open>run_query\<close>
  returns with as many open connections as before the call, with the fetched rows or
  \<open>None\<close>. When executing the statement raises, the exception leaves
  \<open>run_query\<close> with the connection it opened still open and nothing committed.
\<close>

theorem run_query_connection:
  "(\<forall>data t'. query (db e) = Inr (data, t') \<longrightarrow>
      open_conns (snd (run_query query fetch e)) = open_conns e \<and>
      fst (run_query query fetch e) = Inr (if fetch then Some data else None)) \<and>
   (\<forall>err. query (db e) = Inl err \<longrightarrow>
      run_query query fetch e = (Inl err, e\<lparr>open_conns := Suc (open_conns e)\<rparr>))"
  by (simp add: run_query_def)

text \<open>
  C9 as stated fails: the INSERT of a username that exists raises IntegrityError, and
  \<open>run_query\<close> returns with one more open connection than before.
\<close>

theorem run_query_leak_counterexample:
  "fst (run_query (sql_insert_user 5 ''admin'' ''salt$secret'' ''student'') False seeded_env) =
     Inl IntegrityError \<and>
   open_conns (snd (run_query (sql_insert_user 5 ''admin'' ''salt$secret'' ''student'') False
     seeded_env)) \<noteq> open_conns seeded_env"
  by (simp add: run_query_def sql_insert_user_def seeded_env_def)

text \<open>C9 at an INSERT and a SELECT that succeed and at an INSERT that raises.\<close>

theorem run_query_connection_witness:
  "open_conns (snd (run_query (sql_insert_user 5 ''alice'' ''salt$secret'' ''student'') False
     seeded_env)) = 0 \<and>
   open_conns (snd (run_query (sql_select_user ''admin'') True seeded_env)) = 0 \<and>
   run_query (sql_insert_user 5 ''admin'' ''salt$secret'' ''student'') False seeded_env =
     (Inl IntegrityError, seeded_env\<lparr>open_conns := 1\<rparr>)"
  using
    run_query_connection [of "sql_insert_user 5 ''alice'' ''salt$secret'' ''student''"
      seeded_env False]
    run_query_connection [of "sql_select_user ''admin''" seeded_env True]
    run_query_connection [of "sql_insert_user 5 ''admin'' ''salt$secret'' ''student''"
      seeded_env False]
  by (simp add: sql_insert_user_def sql_select_user_def seeded_env_def Let_def)

text \<open>
  C10. When the row of a key holds a status that is none of "Non fait", "En cours" and
  "Fait", the read for the selectbox does not raise: it returns the stored status with
  index 0, the position of "Non fait" in \<open>STATUS_OPTS\<close>.
\<close>

theorem read_status_unrecognised:
  assumes "key_rows uid subj chap cmp (db e) = r # rs"
    and "status r \<notin> set STATUS_OPTS"
  shows "read_status uid subj chap cmp e = (Inr (status r, 0), e) \<and>
         STATUS_OPTS ! 0 = ''Non fait''"
  using assms
  by (simp add: read_status_def current_status_eq current_idx_def) (simp add: STATUS_OPTS_def)

text \<open>C10 at a row with the status "Termine".\<close>

theorem read_status_unrecognised_witness:
  "read_status 1 ''Physique'' ''Thermodynamique'' ''TD'' junk_status_env =
     (Inr (''Termine'', 0), junk_status_env)"
proof -
  have k: "key_rows 1 ''Physique'' ''Thermodynamique'' ''TD'' (db junk_status_env) =
      \<lparr>p_id = 1, p_user_id = 1, subject = ''Physique'', chapter_name = ''Thermodynamique'',
        component = ''TD'', status = ''Termine'', updated_at = 10\<rparr> # []"
    by (simp add: key_rows_def key_matches_def junk_status_env_def)
  have s: "status \<lparr>p_id = 1, p_user_id = 1, subject = ''Physique'',
        chapter_name = ''Thermodynamique'', component = ''TD'', status = ''Termine'',
        updated_at = 10\<rparr> \<notin> set STATUS_OPTS"
    by (simp add: STATUS_OPTS_def)
  show ?thesis
    using read_status_unrecognised [OF k s] by simp
qed

end
